theory Spec2Isabelle
  imports Complex_Main "HOL-Library.Multiset"
begin

section \<open>Values shared by the components\<close>

text \<open>
  A TypeScript \<open>number\<close> is modelled as an exact rational: sums and products are those of
  arithmetic, without the rounding of IEEE doubles (exact for whole amounts below \<open>2^53\<close>).
\<close>

type_synonym number = rat

text \<open>
  A template literal such as \<^verbatim>\<open>`Only ${product.quantity} units of ${product.name} are available`\<close>
  is kept as the list of its parts, so that an interpolated number stays a number.
\<close>

datatype part = Str string | Num number

type_synonym message = "part list"

datatype variant = Default | Destructive

record toast =
  title :: string
  description :: message
  variant :: variant

definition toast_error :: "message \<Rightarrow> toast" where
  "toast_error d = \<lparr>title = ''Error'', description = d, variant = Destructive\<rparr>"

definition toast_success :: "message \<Rightarrow> toast" where
  "toast_success d = \<lparr>title = ''Success'', description = d, variant = Default\<rparr>"

section \<open>Records of the data model\<close>

text \<open>
  \<open>ProductFields\<close> is \<^verbatim>\<open>Omit<Product, 'id' | 'createdAt'>\<close> (the edit form), \<open>product_doc\<close> the
  document stored under \<^verbatim>\<open>products/<key>\<close>, and \<open>Product\<close> the object a snapshot
  reader builds with \<^verbatim>\<open>{ id: key, ...data }\<close>. Field names carry the suffix \<open>_P\<close>.
\<close>

record ProductFields =
  name_P :: string
  type_P :: string
  voltage_P :: string
  rating_P :: string
  make_P :: string
  quantity_P :: number
  unit_P :: string
  price_P :: number

record product_doc = ProductFields +
  createdAt_P :: nat
  updatedAt_P :: "nat option"

record Product = product_doc +
  id_P :: string

record Customer =
  id_C :: string
  name_C :: string
  email_C :: string
  address_C :: string
  location_C :: string
  phone_C :: string

text \<open>The line of a stored quotation (and of the invoice made from it).\<close>

record QuotationItem =
  productId :: string
  quantity :: number
  unitPrice :: number
  subtotal :: number
  productName :: "string option"

datatype quotation_status = Pending | Approved | Rejected | Invoiced

text \<open>
  \<open>QuotationFormValues\<close> is what the quotation form's schema yields; the stored document
  spreads it (\<^verbatim>\<open>...data\<close>) and adds the lines, the total, the status and the timestamp;
  \<open>Quotation\<close> is the object of the quotation list, with the key as \<open>id\<close>.
\<close>

record QuotationFormValues =
  customerId :: string
  validUntil :: string
  notes_Q :: "string option"

record quotation_doc = QuotationFormValues +
  items :: "QuotationItem list"
  totalAmount :: number
  status :: quotation_status
  createdAt :: nat

record Quotation = quotation_doc +
  id_Q :: string
  customerName :: "string option"

record AdditionalItem =
  description_A :: string
  amount_A :: number

datatype invoice_type = customer_T | company_T

datatype invoice_status = active | paid | cancelled

record InvoiceFormValues =
  invoiceNumber :: string
  invoiceDate :: string
  paymentTerms :: string
  warrantyPeriod :: "string option"
  notes_I :: "string option"
  additionalItems :: "AdditionalItem list option"

record invoice_doc = InvoiceFormValues +
  quotationId :: string
  customerId_I :: string
  items_I :: "QuotationItem list"
  totalAmount_I :: number
  type_I :: invoice_type
  status_I :: invoice_status
  createdAt_I :: nat

section \<open>The entity store\<close>

text \<open>
  A collection is the list of its documents with their keys, in key order; \<open>push\<close> keys
  are generated in increasing order, so a new document goes to the end.
\<close>

type_synonym 'a collection = "(string \<times> 'a) list"

record store =
  products :: "product_doc collection"
  quotations :: "quotation_doc collection"
  invoices :: "invoice_doc collection"

datatype store_error = WriteFailed | AbsentId

text \<open>
  What the store answers to one handler run: whether its \<open>push\<close> and its \<open>update\<close> go
  through (either may fail on its own), the key \<open>push\<close> generates, and the time the server
  puts for \<^verbatim>\<open>serverTimestamp()\<close>.
\<close>

record io =
  push_ok :: bool
  update_ok :: bool
  new_key :: string
  server_time :: nat

text \<open>
  Modelled from the spec: the store client (\<^verbatim>\<open>push\<close>, \<^verbatim>\<open>update\<close> of the database SDK)
  is an external collaborator whose code is not in the repository. Section 6 of the spec gives
  its contract: create "appends a record, returns generated id"; update "merges fields into an
  existing record; fails if id absent"; each call "may fail independently".
  The fields merged are given as the function that sets them.
\<close>

definition push :: "bool \<Rightarrow> string \<Rightarrow> 'a \<Rightarrow> 'a collection \<Rightarrow> store_error + 'a collection" where
  "push ok key doc c = (if ok then Inr (c @ [(key, doc)]) else Inl WriteFailed)"

definition update :: "bool \<Rightarrow> string \<Rightarrow> ('a \<Rightarrow> 'a) \<Rightarrow> 'a collection \<Rightarrow> store_error + 'a collection" where
  "update ok key merge c =
     (if \<not> ok then Inl WriteFailed
      else if map_of c key = None then Inl AbsentId
      else Inr (map (\<lambda>(k, r). if k = key then (k, merge r) else (k, r)) c))"

section \<open>QuotationForm\<close>

text \<open>The form's own line: the chosen product id, the quantity, and the product found for it.\<close>

record FormItem =
  productId_F :: string
  quantity_F :: number
  product_F :: "Product option"

datatype field_value = ProductIdValue string | QuantityValue number

text \<open>\<^verbatim>\<open>setQuotationItems([...quotationItems, { productId: '', quantity: 1 }])\<close>\<close>

definition addQuotationItem :: "FormItem list \<Rightarrow> FormItem list" where
  "addQuotationItem quotationItems =
     quotationItems @ [\<lparr>productId_F = '''', quantity_F = 1, product_F = None\<rparr>]"

text \<open>
  \<^verbatim>\<open>updateQuotationItem(index, field, value)\<close>. The handler is bound to the rows that are
  rendered, so \<open>index\<close> is in range; out of range JavaScript would make a sparse array, which
  is \<open>None\<close> here.
\<close>

definition updateQuotationItem ::
  "Product list \<Rightarrow> FormItem list \<Rightarrow> nat \<Rightarrow> field_value \<Rightarrow> FormItem list option" where
  "updateQuotationItem products_F quotationItems index v =
     (if index < length quotationItems then
        Some (quotationItems[index :=
          (case v of
             ProductIdValue productId' \<Rightarrow>
               (quotationItems ! index)\<lparr>productId_F := productId',
                  product_F := find (\<lambda>p. id_P p = productId') products_F\<rparr>
           | QuantityValue q \<Rightarrow> (quotationItems ! index)\<lparr>quantity_F := q\<rparr>)])
      else None)"

text \<open>
  The quantity input's change handler passes \<^verbatim>\<open>parseInt(e.target.value) || 1\<close>. \<open>parseInt\<close>
  gives an integer or \<open>NaN\<close> (\<open>None\<close> here); \<open>NaN\<close> and zero are falsy and become 1; every
  other integer, of either sign, is kept. The input element declares \<^verbatim>\<open>min="1"\<close>, which the
  handler does not read.
\<close>

definition quantity_input :: "int option \<Rightarrow> field_value" where
  "quantity_input parsed =
     QuantityValue (case parsed of None \<Rightarrow> 1 | Some n \<Rightarrow> if n = 0 then 1 else of_int n)"

text \<open>
  The effect that keeps the state variable \<open>total\<close> (here \<open>total_F\<close>): it runs whenever
  \<open>quotationItems\<close> changes, so at submit time \<open>total\<close> is this sum of the current lines.
\<close>

definition total_F :: "FormItem list \<Rightarrow> number" where
  "total_F quotationItems =
     fold (\<lambda>item sum. case product_F item of
                         Some product \<Rightarrow> sum + price_P product * quantity_F item
                       | None \<Rightarrow> sum) quotationItems 0"

text \<open>\<^verbatim>\<open>item.product?.price || 0\<close>\<close>

definition price_or_0 :: "FormItem \<Rightarrow> number" where
  "price_or_0 item =
     (case product_F item of
        None \<Rightarrow> 0
      | Some product \<Rightarrow> if price_P product = 0 then 0 else price_P product)"

definition quotationData :: "QuotationFormValues \<Rightarrow> FormItem list \<Rightarrow> nat \<Rightarrow> quotation_doc" where
  "quotationData data quotationItems now =
     \<lparr>customerId = customerId data, validUntil = validUntil data, notes_Q = notes_Q data,
      items = map (\<lambda>item. \<lparr>productId = productId_F item, quantity = quantity_F item,
                             unitPrice = price_or_0 item,
                             subtotal = price_or_0 item * quantity_F item,
                             productName = None\<rparr>) quotationItems,
      totalAmount = total_F quotationItems,
      status = Pending,
      createdAt = now\<rparr>"

text \<open>The toasts of \<open>QuotationForm.onSubmit\<close>.\<close>

definition toast_no_items :: toast where
  "toast_no_items = toast_error [Str ''Please add at least one product to the quotation'']"

definition toast_no_product :: toast where
  "toast_no_product = toast_error [Str ''Please select a product for each quotation item'']"

definition toast_not_found :: toast where
  "toast_not_found = toast_error [Str ''One or more products not found'']"

definition toast_only :: "Product \<Rightarrow> toast" where
  "toast_only product =
     toast_error [Str ''Only '', Num (quantity_P product), Str '' units of '',
                  Str (name_P product), Str '' are available'']"

definition toast_quotation_failed :: toast where
  "toast_quotation_failed = toast_error [Str ''Failed to create quotation. Please try again.'']"

definition toast_quotation_created :: toast where
  "toast_quotation_created = toast_success [Str ''Quotation created successfully'']"

text \<open>
  The loop \<^verbatim>\<open>for (const item of quotationItems)\<close> of \<open>onSubmit\<close>: the toast of the first
  line that fails a check (the handler returns there), or \<open>None\<close> when every line passes.
\<close>

fun check_items :: "Product list \<Rightarrow> FormItem list \<Rightarrow> toast option" where
  "check_items products_F [] = None"
| "check_items products_F (item # rest) =
     (if productId_F item = '''' then Some toast_no_product
      else case find (\<lambda>p. id_P p = productId_F item) products_F of
             None \<Rightarrow> Some toast_not_found
           | Some product \<Rightarrow>
               if quantity_F item > quantity_P product then Some (toast_only product)
               else check_items products_F rest)"

text \<open>
  \<open>QuotationForm.onSubmit\<close>: the store after the handler and the toast it shows. A failed
  \<open>push\<close> throws and is caught by the handler's \<^verbatim>\<open>catch\<close>.
\<close>

definition onSubmit_Q ::
  "io \<Rightarrow> QuotationFormValues \<Rightarrow> Product list \<Rightarrow> FormItem list \<Rightarrow> store \<Rightarrow> store \<times> toast" where
  "onSubmit_Q env data products_F quotationItems st =
     (if length quotationItems = 0 then (st, toast_no_items)
      else case check_items products_F quotationItems of
             Some t \<Rightarrow> (st, t)
           | None \<Rightarrow>
               (case push (push_ok env) (new_key env)
                       (quotationData data quotationItems (server_time env)) (quotations st) of
                  Inl e \<Rightarrow> (st, toast_quotation_failed)
                | Inr qs \<Rightarrow> (st\<lparr>quotations := qs\<rparr>, toast_quotation_created)))"

section \<open>QuotationList and InvoiceGenerator\<close>

text \<open>
  The "Generate Invoice" button of the quotation list is rendered for every quotation, whatever
  its status; its click handler sets \<open>selectedQuotation\<close> and \<open>showInvoice\<close>, which mounts the
  invoice generator on that quotation.
\<close>

definition generateInvoiceClick :: "Quotation \<Rightarrow> Quotation option \<times> bool" where
  "generateInvoiceClick quotation = (Some quotation, True)"


text \<open>
  \<^verbatim>\<open>let totalAmount = quotation.totalAmount\<close>, then
  \<^verbatim>\<open>data.additionalItems.forEach(item => { totalAmount += item.amount })\<close> when the list is
  there and not empty.
\<close>

definition invoice_total :: "Quotation \<Rightarrow> InvoiceFormValues \<Rightarrow> number" where
  "invoice_total quotation data =
     (case additionalItems data of
        None \<Rightarrow> totalAmount quotation
      | Some its \<Rightarrow>
          if length its > 0
          then fold (\<lambda>item acc. acc + amount_A item) its (totalAmount quotation)
          else totalAmount quotation)"

definition invoiceData ::
  "InvoiceFormValues \<Rightarrow> Quotation \<Rightarrow> Customer \<Rightarrow> invoice_type \<Rightarrow> nat \<Rightarrow> invoice_doc" where
  "invoiceData data quotation cust invoiceType now =
     \<lparr>invoiceNumber = invoiceNumber data, invoiceDate = invoiceDate data,
      paymentTerms = paymentTerms data, warrantyPeriod = warrantyPeriod data,
      notes_I = notes_I data, additionalItems = additionalItems data,
      quotationId = id_Q quotation,
      customerId_I = id_C cust,
      items_I = items quotation,
      totalAmount_I = invoice_total quotation data,
      type_I = invoiceType,
      status_I = active,
      createdAt_I = now\<rparr>"

definition toast_invoice_generated :: toast where
  "toast_invoice_generated = toast_success [Str ''Invoice generated successfully'']"

definition toast_invoice_failed :: toast where
  "toast_invoice_failed = toast_error [Str ''Failed to generate invoice. Please try again.'']"

text \<open>
  \<open>InvoiceGenerator.onSubmit\<close>: first the \<open>push\<close> of the invoice, then the \<open>update\<close> of the
  quotation's status. Either call may throw; both land in the one \<^verbatim>\<open>catch\<close> of the handler,
  which shows \<open>toast_invoice_failed\<close>. What was written before the throw stays written.
\<close>

definition onSubmit_I ::
  "io \<Rightarrow> InvoiceFormValues \<Rightarrow> Quotation \<Rightarrow> Customer \<Rightarrow> invoice_type \<Rightarrow> store \<Rightarrow> store \<times> toast" where
  "onSubmit_I env data quotation cust invoiceType st =
     (case push (push_ok env) (new_key env)
             (invoiceData data quotation cust invoiceType (server_time env)) (invoices st) of
        Inl e \<Rightarrow> (st, toast_invoice_failed)
      | Inr invs \<Rightarrow>
          (case update (update_ok env) (id_Q quotation) (\<lambda>q. q\<lparr>status := Invoiced\<rparr>)
                  (quotations st) of
             Inl e \<Rightarrow> (st\<lparr>invoices := invs\<rparr>, toast_invoice_failed)
           | Inr qs \<Rightarrow> (st\<lparr>invoices := invs, quotations := qs\<rparr>, toast_invoice_generated)))"

section \<open>ProductList\<close>

definition toast_negative :: toast where
  "toast_negative = toast_error [Str ''Quantity cannot be negative.'']"

definition toast_quantity_failed :: toast where
  "toast_quantity_failed = toast_error [Str ''Failed to update quantity. Please try again.'']"

text \<open>
  \<^verbatim>\<open>`${amount} ${selectedProduct.unit}(s) ${action} inventory.`\<close> with
  \<^verbatim>\<open>action = quantityChange > 0 ? 'added to' : 'removed from'\<close> and
  \<^verbatim>\<open>amount = Math.abs(quantityChange)\<close>.
\<close>

definition toast_inventory :: "Product \<Rightarrow> number \<Rightarrow> toast" where
  "toast_inventory selectedProduct quantityChange =
     toast_success [Num \<bar>quantityChange\<bar>, Str '' '', Str (unit_P selectedProduct), Str ''(s) '',
                    Str (if quantityChange > 0 then ''added to'' else ''removed from''),
                    Str '' inventory.'']"

text \<open>
  \<open>confirmQuantityChange\<close>: the delta adjustment. \<open>selectedProduct\<close> is the product object
  the dialog was opened on; nothing happens (and nothing is shown) when there is none.
\<close>

definition confirmQuantityChange ::
  "io \<Rightarrow> Product option \<Rightarrow> number \<Rightarrow> store \<Rightarrow> store \<times> toast option" where
  "confirmQuantityChange env selected quantityChange st =
     (case selected of
        None \<Rightarrow> (st, None)
      | Some selectedProduct \<Rightarrow>
          (let newQuantity = quantity_P selectedProduct + quantityChange in
           if newQuantity < 0 then (st, Some toast_negative)
           else case update (update_ok env) (id_P selectedProduct)
                       (\<lambda>d. d\<lparr>quantity_P := newQuantity,
                                 updatedAt_P := Some (server_time env)\<rparr>) (products st) of
                  Inl e \<Rightarrow> (st, Some toast_quantity_failed)
                | Inr ps \<Rightarrow>
                    (st\<lparr>products := ps\<rparr>, Some (toast_inventory selectedProduct quantityChange))))"






section \<open>The scenarios of the specification as data\<close>

definition productA :: Product where
  "productA = \<lparr>name_P = ''Panel 330W'', type_P = ''solar_panel'', voltage_P = ''24'',
     rating_P = ''330W'', make_P = ''Helios'', quantity_P = 5, unit_P = ''piece'', price_P = 100,
     createdAt_P = 10, updatedAt_P = None, id_P = ''productA''\<rparr>"

definition productB :: Product where
  "productB = \<lparr>name_P = ''Battery 150Ah'', type_P = ''battery'', voltage_P = ''12'',
     rating_P = ''150Ah'', make_P = ''Volta'', quantity_P = 3, unit_P = ''piece'', price_P = 50,
     createdAt_P = 20, updatedAt_P = None, id_P = ''productB''\<rparr>"

definition docA :: product_doc where
  "docA = \<lparr>name_P = ''Panel 330W'', type_P = ''solar_panel'', voltage_P = ''24'',
     rating_P = ''330W'', make_P = ''Helios'', quantity_P = 5, unit_P = ''piece'', price_P = 100,
     createdAt_P = 10, updatedAt_P = None\<rparr>"

definition lineA :: FormItem where
  "lineA = \<lparr>productId_F = ''productA'', quantity_F = 2, product_F = Some productA\<rparr>"


definition lineB_over :: FormItem where
  "lineB_over = \<lparr>productId_F = ''productB'', quantity_F = 10, product_F = Some productB\<rparr>"

definition line_blank :: FormItem where
  "line_blank = \<lparr>productId_F = [], quantity_F = 1, product_F = None\<rparr>"

definition lineA_negative :: FormItem where
  "lineA_negative = \<lparr>productId_F = ''productA'', quantity_F = - 1, product_F = Some productA\<rparr>"

definition form_values :: QuotationFormValues where
  "form_values = \<lparr>customerId = ''c1'', validUntil = ''2026-12-31'', notes_Q = None\<rparr>"

definition env_ok :: io where
  "env_ok = \<lparr>push_ok = True, update_ok = True, new_key = ''k1'', server_time = 1000\<rparr>"

definition env_push_fails :: io where
  "env_push_fails = \<lparr>push_ok = False, update_ok = True, new_key = ''k1'', server_time = 1000\<rparr>"

definition env_update_fails :: io where
  "env_update_fails = \<lparr>push_ok = True, update_ok = False, new_key = ''k1'', server_time = 1000\<rparr>"

definition itemsAB :: "QuotationItem list" where
  "itemsAB =
     [\<lparr>productId = ''productA'', quantity = 2, unitPrice = 100, subtotal = 200, productName = None\<rparr>,
      \<lparr>productId = ''productB'', quantity = 1, unitPrice = 50, subtotal = 50, productName = None\<rparr>]"

definition quote_doc :: "quotation_status \<Rightarrow> quotation_doc" where
  "quote_doc s = \<lparr>customerId = ''c1'', validUntil = ''2026-12-31'', notes_Q = None,
     items = itemsAB, totalAmount = 250, status = s, createdAt = 500\<rparr>"

definition quote :: "quotation_status \<Rightarrow> Quotation" where
  "quote s = \<lparr>customerId = ''c1'', validUntil = ''2026-12-31'', notes_Q = None,
     items = itemsAB, totalAmount = 250, status = s, createdAt = 500,
     id_Q = ''q1'', customerName = Some ''Asha''\<rparr>"

definition asha :: Customer where
  "asha = \<lparr>id_C = ''c1'', name_C = ''Asha'', email_C = ''asha@example.org'',
     address_C = ''12 Lake Road'', location_C = ''Pune'', phone_C = ''9999999999''\<rparr>"

definition installation :: AdditionalItem where
  "installation = \<lparr>description_A = ''Installation'', amount_A = 75\<rparr>"

definition invoice_values :: "AdditionalItem list option \<Rightarrow> InvoiceFormValues" where
  "invoice_values its = \<lparr>invoiceNumber = ''INV-000001'', invoiceDate = ''2026-11-03'',
     paymentTerms = ''100% advance payment'', warrantyPeriod = Some ''1 year standard warranty'',
     notes_I = None, additionalItems = its\<rparr>"

definition store0 :: store where
  "store0 = \<lparr>products = [], quotations = [], invoices = []\<rparr>"

definition store_with :: "quotation_status \<Rightarrow> store" where
  "store_with s = \<lparr>products = [(''productA'', docA)], quotations = [(''q1'', quote_doc s)],
     invoices = []\<rparr>"


definition store_invoiced :: store where
  "store_invoiced = \<lparr>products = [(''productA'', docA)],
     quotations = [(''q1'', quote_doc Invoiced)],
     invoices = [(''k1'', invoiceData (invoice_values (Some [installation])) (quote Invoiced)
                          asha customer_T 1000)]\<rparr>"

section \<open>Auxiliary definitions\<close>

text \<open>The fields of a stored quotation other than its status.\<close>

definition other_fields ::
  "quotation_doc \<Rightarrow> string \<times> string \<times> string option \<times> QuotationItem list \<times> number \<times> nat" where
  "other_fields q = (customerId q, validUntil q, notes_Q q, items q, totalAmount q, createdAt q)"


section \<open>Creating a quotation\<close>

text \<open>
  Claim C9. A quotation-creation request with an empty line-item list is rejected with the
  error toast asking for at least one product, and the store is left as it was: no record is
  written.
\<close>

theorem empty_quotation_rejected:
  "onSubmit_Q env data products_F [] st = (st, toast_no_items)"
  by (simp add: onSubmit_Q_def)

subsection \<open>The total\<close>





lemma check_items_title: "check_items ps xs = Some t \<Longrightarrow> title t = ''Error''"
  by (induction xs)
    (auto simp: toast_no_product_def toast_not_found_def toast_only_def toast_error_def
          split: if_splits option.splits)





subsection \<open>The stock check\<close>

lemma check_items_append:
  "check_items ps (xs @ ys) =
     (case check_items ps xs of Some t \<Rightarrow> Some t | None \<Rightarrow> check_items ps ys)"
  by (induction xs) (simp_all split: option.splits)

lemma check_items_over_stock:
  assumes "item \<in> set xs" and "find (\<lambda>p. id_P p = productId_F item) ps = Some product"
    and "quantity_F item > quantity_P product"
  shows "check_items ps xs \<noteq> None"
  using assms by (induction xs) (auto split: option.splits)

lemma check_items_first:
  assumes "item \<in> set xs" and "find (\<lambda>p. id_P p = productId_F item) ps = Some product"
    and "quantity_F item > quantity_P product" and "productId_F item \<noteq> []"
    and "check_items ps (takeWhile (\<lambda>i. i \<noteq> item) xs) = None"
  shows "check_items ps xs = Some (toast_only product)"
proof -
  from assms(1) obtain rest where d: "dropWhile (\<lambda>i. i \<noteq> item) xs = item # rest"
    by (metis (mono_tags, lifting) dropWhile_eq_Nil_conv hd_dropWhile list.exhaust list.sel(1))
  have "xs = takeWhile (\<lambda>i. i \<noteq> item) xs @ item # rest"
    using d by (metis takeWhile_dropWhile_id)
  then have "check_items ps xs = check_items ps (item # rest)"
    using assms(5) check_items_append[of ps "takeWhile (\<lambda>i. i \<noteq> item) xs" "item # rest"]
    by simp
  then show ?thesis using assms(2,3,4) by simp
qed

text \<open>
  Claim C7, as the code has it. A quotation-creation request containing a line whose quantity
  exceeds the quantity of the product it refers to (in the product list the form holds) is
  rejected with an error toast and the store is left as it was. The checks run line by line
  and stop at the first line that fails one: the toast names this line's product and its
  available quantity when every line before it passes the checks.
\<close>

theorem over_stock_quotation_rejected:
  assumes "item \<in> set quotationItems" and "productId_F item \<noteq> []"
    and "find (\<lambda>p. id_P p = productId_F item) products_F = Some product"
    and "quantity_F item > quantity_P product"
  shows "fst (onSubmit_Q env data products_F quotationItems st) = st
       \<and> title (snd (onSubmit_Q env data products_F quotationItems st)) = ''Error''
       \<and> (check_items products_F (takeWhile (\<lambda>i. i \<noteq> item) quotationItems) = None \<longrightarrow>
            snd (onSubmit_Q env data products_F quotationItems st) = toast_only product)"
proof -
  from assms(1) have ne: "quotationItems \<noteq> []" by auto
  from check_items_over_stock[OF assms(1,3,4)] obtain t
    where t: "check_items products_F quotationItems = Some t" by auto
  have r: "onSubmit_Q env data products_F quotationItems st = (st, t)"
    using ne t by (simp add: onSubmit_Q_def)
  have "title t = ''Error''" using t by (rule check_items_title)
  moreover have "check_items products_F (takeWhile (\<lambda>i. i \<noteq> item) quotationItems) = None
      \<longrightarrow> t = toast_only product"
    using check_items_first[OF assms(1,3,4,2)] t by auto
  ultimately show ?thesis using r by simp
qed

theorem over_stock_quotation_rejected_witness:
  "lineB_over \<in> set [lineA, lineB_over] \<and> productId_F lineB_over \<noteq> []
   \<and> find (\<lambda>p. id_P p = productId_F lineB_over) [productA, productB] = Some productB
   \<and> quantity_F lineB_over > quantity_P productB
   \<and> check_items [productA, productB] (takeWhile (\<lambda>i. i \<noteq> lineB_over) [lineA, lineB_over]) = None
   \<and> onSubmit_Q env_ok form_values [productA, productB] [lineA, lineB_over] store0
       = (store0, toast_only productB)"
proof -
  have 1: "lineB_over \<in> set [lineA, lineB_over]" by simp
  have 2: "productId_F lineB_over \<noteq> []" by (simp add: lineB_over_def)
  have 3: "find (\<lambda>p. id_P p = productId_F lineB_over) [productA, productB] = Some productB"
    by (simp add: lineB_over_def productA_def productB_def)
  have 4: "quantity_F lineB_over > quantity_P productB"
    by (simp add: lineB_over_def productB_def)
  have 5: "check_items [productA, productB]
      (takeWhile (\<lambda>i. i \<noteq> lineB_over) [lineA, lineB_over]) = None"
    by (simp add: lineA_def lineB_over_def productA_def productB_def)
  from over_stock_quotation_rejected[OF 1 2 3 4, of env_ok form_values store0] 5
  have "onSubmit_Q env_ok form_values [productA, productB] [lineA, lineB_over] store0
       = (store0, toast_only productB)"
    by (simp add: prod_eq_iff)
  with 1 2 3 4 5 show ?thesis by blast
qed

text \<open>
  The claim as written fails where an earlier line fails another check: with a first line on
  which no product was chosen, the toast asks to select a product and does not name the
  over-stock line's product.
\<close>

theorem over_stock_error_names_other_line_counterexample:
  "lineB_over \<in> set [line_blank, lineB_over]
   \<and> find (\<lambda>p. id_P p = productId_F lineB_over) [productA, productB] = Some productB
   \<and> quantity_F lineB_over > quantity_P productB
   \<and> onSubmit_Q env_ok form_values [productA, productB] [line_blank, lineB_over] store0
       = (store0, toast_no_product)
   \<and> toast_no_product \<noteq> toast_only productB"
  by (simp add: onSubmit_Q_def line_blank_def lineB_over_def productA_def productB_def
      toast_no_product_def toast_only_def toast_error_def)

subsection \<open>Quantities below one\<close>

text \<open>
  A line with the quantity \<open>-1\<close> is what the form holds after "Add Product", the choice of
  product A and the input \<open>-1\<close> in the quantity field.
\<close>

lemma negative_line_reachable:
  "updateQuotationItem [productA] (addQuotationItem []) 0 (ProductIdValue ''productA'')
     = Some [lineA\<lparr>quantity_F := 1\<rparr>]
   \<and> updateQuotationItem [productA] [lineA\<lparr>quantity_F := 1\<rparr>] 0 (quantity_input (Some (- 1)))
     = Some [lineA_negative]"
  by (simp add: updateQuotationItem_def addQuotationItem_def quantity_input_def
      lineA_def lineA_negative_def productA_def)


section \<open>Generating an invoice\<close>




lemma onSubmit_I_push_fails:
  assumes "\<not> push_ok env"
  shows "onSubmit_I env data quotation cust invoiceType st = (st, toast_invoice_failed)"
  using assms by (simp add: onSubmit_I_def push_def)





subsection \<open>What invoice generation writes\<close>

lemma update_frame:
  assumes "update ok key (\<lambda>q. q\<lparr>status := Invoiced\<rparr>) c = Inr c'"
  shows "c' = map (\<lambda>(k, q). if k = key then (k, q\<lparr>status := Invoiced\<rparr>) else (k, q)) c"
  using assms by (simp add: update_def split: if_splits)

lemma onSubmit_I_quotations:
  "quotations (fst (onSubmit_I env data quotation cust invoiceType st)) = quotations st
   \<or> quotations (fst (onSubmit_I env data quotation cust invoiceType st))
      = map (\<lambda>(k, q). if k = id_Q quotation then (k, q\<lparr>status := Invoiced\<rparr>) else (k, q)) (quotations st)"
  by (auto simp: onSubmit_I_def push_def split: sum.splits dest: update_frame)

lemma onSubmit_I_products:
  "products (fst (onSubmit_I env data quotation cust invoiceType st)) = products st"
  by (simp add: onSubmit_I_def push_def split: sum.splits)

lemma status_update_rel:
  "list_all2 (\<lambda>(k, q) (k', q'). k' = k \<and> (q' = q \<or> (k = key \<and> q' = q\<lparr>status := Invoiced\<rparr>))) c
     (map (\<lambda>(k, q). if k = key then (k, q\<lparr>status := Invoiced\<rparr>) else (k, q)) c)"
  by (induction c) (auto split: if_splits)

lemma status_update_same:
  "list_all2 (\<lambda>(k, q) (k', q'). k' = k \<and> (q' = q \<or> (k = key \<and> q' = q\<lparr>status := Invoiced\<rparr>))) c c"
  by (induction c) auto

lemma status_update_other_fields:
  "map (\<lambda>(k, q). (k, other_fields q))
     (map (\<lambda>(k, q). if k = key then (k, q\<lparr>status := Invoiced\<rparr>) else (k, q)) c)
   = map (\<lambda>(k, q). (k, other_fields q)) c"
  by (induction c) (auto simp: other_fields_def)

text \<open>
  Claim C10. Whatever the outcome of \<open>InvoiceGenerator.onSubmit\<close>, no product document is
  written, every stored quotation keeps its key and its \<open>customerId\<close>, \<open>validUntil\<close>,
  \<open>notes\<close>, \<open>items\<close>, \<open>totalAmount\<close> and \<open>createdAt\<close>, and the only change to a stored
  quotation is the status \<open>Invoiced\<close> set on the quotation the invoice is generated from.
\<close>

theorem invoice_generation_writes_only_status:
  "products (fst (onSubmit_I env data quotation cust invoiceType st)) = products st
   \<and> map (\<lambda>(k, q). (k, other_fields q)) (quotations (fst (onSubmit_I env data quotation cust invoiceType st)))
       = map (\<lambda>(k, q). (k, other_fields q)) (quotations st)
   \<and> list_all2 (\<lambda>(k, q) (k', q'). k' = k \<and> (q' = q \<or> (k = id_Q quotation \<and> q' = q\<lparr>status := Invoiced\<rparr>)))
       (quotations st) (quotations (fst (onSubmit_I env data quotation cust invoiceType st)))"
proof -
  let ?st' = "fst (onSubmit_I env data quotation cust invoiceType st)"
  have p: "products ?st' = products st" by (rule onSubmit_I_products)
  from onSubmit_I_quotations[of env data quotation cust invoiceType st]
  have "map (\<lambda>(k, q). (k, other_fields q)) (quotations ?st')
          = map (\<lambda>(k, q). (k, other_fields q)) (quotations st)
      \<and> list_all2 (\<lambda>(k, q) (k', q'). k' = k \<and> (q' = q \<or> (k = id_Q quotation \<and> q' = q\<lparr>status := Invoiced\<rparr>)))
          (quotations st) (quotations ?st')"
  proof
    assume "quotations ?st' = quotations st"
    then show ?thesis by (simp add: status_update_same)
  next
    assume "quotations ?st'
      = map (\<lambda>(k, q). if k = id_Q quotation then (k, q\<lparr>status := Invoiced\<rparr>) else (k, q)) (quotations st)"
    then show ?thesis by (simp only: status_update_rel status_update_other_fields)
  qed
  with p show ?thesis by (rule conjI)
qed

subsection \<open>A quotation that is already invoiced\<close>

lemma map_of_member: "(k, d) \<in> set c \<Longrightarrow> map_of c k \<noteq> None"
  by (induction c) auto

lemma status_same: "status (q :: quotation_doc) = s \<Longrightarrow> q\<lparr>status := s\<rparr> = q"
  by (cases q) simp

lemma status_update_idle:
  fixes c :: "quotation_doc collection"
  assumes "\<forall>d. (key, d) \<in> set c \<longrightarrow> status d = Invoiced"
  shows "map (\<lambda>(k, q). if k = key then (k, q\<lparr>status := Invoiced\<rparr>) else (k, q)) c = c"
proof (rule map_idI)
  fix x assume m: "x \<in> set c"
  obtain k q where x: "x = (k, q)" by (cases x)
  show "(case x of (k, q) \<Rightarrow> if k = key then (k, q\<lparr>status := Invoiced\<rparr>) else (k, q)) = x"
  proof (cases "k = key")
    case True
    with m x assms have "status q = Invoiced" by blast
    then have "q\<lparr>status := Invoiced\<rparr> = q" by (rule status_same)
    with True x show ?thesis by simp
  next
    case False
    with x show ?thesis by simp
  qed
qed

text \<open>
  Claim C1, as the code has it. \<open>InvoiceGenerator.onSubmit\<close> does not look at the status of
  the quotation. For a quotation whose status is already \<open>Invoiced\<close> (in the list and in the
  store), when both store calls go through, a new invoice record is created, the success
  toast is shown, and the stored quotation is unchanged: the status written is the one it
  has. No "already invoiced" error exists.
\<close>

theorem invoiced_quotation_is_invoiced_again:
  assumes "status quotation = Invoiced" and "push_ok env" and "update_ok env"
    and "(id_Q quotation, d) \<in> set (quotations st)"
    and "\<forall>d'. (id_Q quotation, d') \<in> set (quotations st) \<longrightarrow> status d' = Invoiced"
  shows "onSubmit_I env data quotation cust invoiceType st
     = (st\<lparr>invoices := invoices st @
              [(new_key env, invoiceData data quotation cust invoiceType (server_time env))]\<rparr>,
        toast_invoice_generated)"
proof -
  have 1: "map_of (quotations st) (id_Q quotation) \<noteq> None"
    using assms(4) by (rule map_of_member)
  have 2: "update (update_ok env) (id_Q quotation) (\<lambda>q. q\<lparr>status := Invoiced\<rparr>) (quotations st)
      = Inr (quotations st)"
    using assms(3) 1 status_update_idle[OF assms(5)] by (simp add: update_def)
  show ?thesis using assms(2) 2 by (simp add: onSubmit_I_def push_def)
qed


theorem invoiced_quotation_is_invoiced_again_witness:
  "status (quote Invoiced) = Invoiced \<and> push_ok env_ok \<and> update_ok env_ok
   \<and> (id_Q (quote Invoiced), quote_doc Invoiced) \<in> set (quotations (store_with Invoiced))
   \<and> onSubmit_I env_ok (invoice_values (Some [installation])) (quote Invoiced) asha customer_T
         (store_with Invoiced) = (store_invoiced, toast_invoice_generated)"
proof -
  have 1: "status (quote Invoiced) = Invoiced" by (simp add: quote_def)
  have 2: "push_ok env_ok" and 3: "update_ok env_ok" by (simp_all add: env_ok_def)
  have 4: "(id_Q (quote Invoiced), quote_doc Invoiced) \<in> set (quotations (store_with Invoiced))"
    by (simp add: quote_def store_with_def)
  have 5: "\<forall>d'. (id_Q (quote Invoiced), d') \<in> set (quotations (store_with Invoiced))
      \<longrightarrow> status d' = Invoiced"
    by (simp add: quote_def store_with_def quote_doc_def)
  have "onSubmit_I env_ok (invoice_values (Some [installation])) (quote Invoiced) asha customer_T
         (store_with Invoiced) = (store_invoiced, toast_invoice_generated)"
    unfolding invoiced_quotation_is_invoiced_again[OF 1 2 3 4 5]
    by (simp add: store_with_def store_invoiced_def env_ok_def)
  with 1 2 3 4 show ?thesis by blast
qed

text \<open>
  The claim as written fails: on the invoiced quotation of the scenario the button mounts the
  generator, the handler shows the success toast and the store holds one more invoice.
\<close>

theorem invoiced_quotation_not_refused_counterexample:
  "status (quote Invoiced) = Invoiced
   \<and> generateInvoiceClick (quote Invoiced) = (Some (quote Invoiced), True)
   \<and> snd (onSubmit_I env_ok (invoice_values None) (quote Invoiced) asha customer_T
          (store_with Invoiced)) = toast_invoice_generated
   \<and> title toast_invoice_generated = ''Success''
   \<and> length (invoices (fst (onSubmit_I env_ok (invoice_values None) (quote Invoiced) asha
          customer_T (store_with Invoiced)))) = length (invoices (store_with Invoiced)) + 1"
  by (simp add: onSubmit_I_def push_def update_def generateInvoiceClick_def quote_def
      quote_doc_def store_with_def env_ok_def toast_invoice_generated_def toast_success_def)

subsection \<open>Failing writes\<close>

text \<open>
  Claim C2, as the code has it. If the creation of the invoice record fails, nothing is
  written (the quotation is unchanged) and the generic error toast is shown. If the invoice
  record was created and the update of the quotation's status then fails, the invoice record
  stays in the store, the quotation is unchanged, and the same generic error toast is shown:
  there is no separate consistency warning.
\<close>

theorem invoice_generation_failures:
  "(\<not> push_ok env \<longrightarrow>
      onSubmit_I env data quotation cust invoiceType st = (st, toast_invoice_failed))
   \<and> (push_ok env \<and> (\<not> update_ok env \<or> map_of (quotations st) (id_Q quotation) = None) \<longrightarrow>
      onSubmit_I env data quotation cust invoiceType st
        = (st\<lparr>invoices := invoices st @
              [(new_key env, invoiceData data quotation cust invoiceType (server_time env))]\<rparr>,
           toast_invoice_failed))"
  by (simp add: onSubmit_I_def push_def update_def)

theorem invoice_generation_failures_witness:
  "\<not> push_ok env_push_fails
   \<and> onSubmit_I env_push_fails (invoice_values None) (quote Approved) asha customer_T
        (store_with Approved) = (store_with Approved, toast_invoice_failed)
   \<and> push_ok env_update_fails \<and> \<not> update_ok env_update_fails
   \<and> onSubmit_I env_update_fails (invoice_values None) (quote Approved) asha customer_T
        (store_with Approved)
      = (store_with Approved\<lparr>invoices :=
            [(''k1'', invoiceData (invoice_values None) (quote Approved) asha customer_T 1000)]\<rparr>,
         toast_invoice_failed)"
proof -
  have 1: "\<not> push_ok env_push_fails" by (simp add: env_push_fails_def)
  have 2: "push_ok env_update_fails" and 3: "\<not> update_ok env_update_fails"
    by (simp_all add: env_update_fails_def)
  from invoice_generation_failures[of env_push_fails "invoice_values None" "quote Approved" asha
      customer_T "store_with Approved"] 1
  have a: "onSubmit_I env_push_fails (invoice_values None) (quote Approved) asha customer_T
        (store_with Approved) = (store_with Approved, toast_invoice_failed)"
    by blast
  from invoice_generation_failures[of env_update_fails "invoice_values None" "quote Approved" asha
      customer_T "store_with Approved"] 2 3
  have "onSubmit_I env_update_fails (invoice_values None) (quote Approved) asha customer_T
        (store_with Approved)
      = (store_with Approved\<lparr>invoices := invoices (store_with Approved) @
            [(new_key env_update_fails, invoiceData (invoice_values None) (quote Approved) asha
                customer_T (server_time env_update_fails))]\<rparr>,
         toast_invoice_failed)"
    by blast
  then have b: "onSubmit_I env_update_fails (invoice_values None) (quote Approved) asha customer_T
        (store_with Approved)
      = (store_with Approved\<lparr>invoices :=
            [(''k1'', invoiceData (invoice_values None) (quote Approved) asha customer_T 1000)]\<rparr>,
         toast_invoice_failed)"
    by (simp add: store_with_def env_update_fails_def)
  from 1 a 2 3 b show ?thesis by blast
qed

text \<open>
  The claim as written fails: when the status update fails after the invoice was created, the
  toast is the very toast of the failure in which nothing was written.
\<close>

theorem partial_write_same_toast_counterexample:
  "invoices (fst (onSubmit_I env_update_fails (invoice_values None) (quote Approved) asha
       customer_T (store_with Approved))) \<noteq> invoices (store_with Approved)
   \<and> quotations (fst (onSubmit_I env_update_fails (invoice_values None) (quote Approved) asha
       customer_T (store_with Approved))) = quotations (store_with Approved)
   \<and> snd (onSubmit_I env_update_fails (invoice_values None) (quote Approved) asha customer_T
       (store_with Approved))
     = snd (onSubmit_I env_push_fails (invoice_values None) (quote Approved) asha customer_T
       (store_with Approved))"
  by (simp add: onSubmit_I_def push_def update_def env_update_fails_def env_push_fails_def
      store_with_def)

section \<open>The quantity on hand\<close>

text \<open>
  The delta adjustment refuses a result below zero and writes no negative quantity, as in the
  scenario of the specification: 5, adjusted by \<open>-3\<close>, is 2; the adjustment by \<open>-5\<close> is
  then refused.
\<close>

lemma adjustment_below_zero_rejected:
  assumes "quantity_P selectedProduct + quantityChange < 0"
  shows "confirmQuantityChange env (Some selectedProduct) quantityChange st = (st, Some toast_negative)"
  using assms by (simp add: confirmQuantityChange_def)

lemma update_quantity_nonnegative:
  fixes c :: "product_doc collection"
  assumes "update ok key (\<lambda>d. d\<lparr>quantity_P := n, updatedAt_P := t\<rparr>) c = Inr c'"
    and "0 \<le> n" and "\<forall>(k, d) \<in> set c. 0 \<le> quantity_P d"
  shows "\<forall>(k, d) \<in> set c'. 0 \<le> quantity_P d"
proof -
  from assms(1) have "c' = map (\<lambda>(k, r). if k = key then (k, r\<lparr>quantity_P := n, updatedAt_P := t\<rparr>)
      else (k, r)) c"
    by (simp add: update_def split: if_splits)
  then show ?thesis using assms(2,3) by (auto split: if_splits)
qed

lemma adjustment_keeps_quantities_nonnegative:
  assumes "\<forall>(k, d) \<in> set (products st). 0 \<le> quantity_P d"
  shows "\<forall>(k, d) \<in> set (products (fst (confirmQuantityChange env selected quantityChange st))).
           0 \<le> quantity_P d"
proof (cases selected)
  case None
  then show ?thesis using assms by (simp add: confirmQuantityChange_def)
next
  case (Some selectedProduct)
  show ?thesis
  proof (cases "quantity_P selectedProduct + quantityChange < 0")
    case True
    then show ?thesis using Some assms by (simp add: confirmQuantityChange_def)
  next
    case False
    then have n: "0 \<le> quantity_P selectedProduct + quantityChange" by simp
    show ?thesis
    proof (cases "update (update_ok env) (id_P selectedProduct)
                       (\<lambda>d. d\<lparr>quantity_P := quantity_P selectedProduct + quantityChange,
                                 updatedAt_P := Some (server_time env)\<rparr>) (products st)")
      case (Inl e)
      then show ?thesis using Some False assms by (simp add: confirmQuantityChange_def)
    next
      case (Inr ps)
      from update_quantity_nonnegative[OF Inr n assms]
      show ?thesis using Some False Inr by (simp add: confirmQuantityChange_def)
    qed
  qed
qed

lemma adjustment_scenario:
  "confirmQuantityChange env_ok (Some productA) (- 3) (store_with Pending)
     = (store_with Pending\<lparr>products :=
          [(''productA'', docA\<lparr>quantity_P := 2, updatedAt_P := Some 1000\<rparr>)]\<rparr>,
        Some (toast_inventory productA (- 3)))
   \<and> confirmQuantityChange env_ok (Some (productA\<lparr>quantity_P := 2\<rparr>)) (- 5)
       (store_with Pending\<lparr>products :=
          [(''productA'', docA\<lparr>quantity_P := 2, updatedAt_P := Some 1000\<rparr>)]\<rparr>)
     = (store_with Pending\<lparr>products :=
          [(''productA'', docA\<lparr>quantity_P := 2, updatedAt_P := Some 1000\<rparr>)]\<rparr>,
        Some toast_negative)"
  by (simp add: confirmQuantityChange_def update_def productA_def docA_def store_with_def env_ok_def)


end
